theory Spec2Isabelle
  imports Main
begin

section \<open>The host runtime seen from \<^verbatim>\<open>src/pybind11.hpp\<close>\<close>

text \<open>
  The header is glue between the host interpreter's objects and the native
  \<^verbatim>\<open>Geography\<close> classes. Its functions read and write three kinds of data: the
  host's reference-counted objects, the native objects that host instances wrap, and
  the array library's table of type descriptors. They are written here as explicit
  state: every function takes the runtime and returns its result with the runtime
  after the call; a C++ exception is the \<open>Inl\<close> of a sum.
\<close>

type_synonym addr = nat

subsection \<open>Native classes\<close>

text \<open>A C++ class is its name and its direct base classes.\<close>

datatype cpp_class = Class string "cpp_class list"

text \<open>
  Modelled from the spec: the declaration of \<^verbatim>\<open>Geography\<close> is in
  \<^verbatim>\<open>geography.hpp\<close>, which the header includes and which is not among the
  sources. The spec has it as the base type of a polymorphic hierarchy (``base type
  Geography plus subtypes''): a class with no base of its own, from which the
  geometry classes derive.
\<close>

definition Geography :: cpp_class where
  "Geography = Class ''Geography'' []"

text \<open>\<^verbatim>\<open>std::is_base_of<B, D>\<close>: \<open>D\<close> is \<open>B\<close> or derives from it, directly or not.\<close>

fun is_base_of :: "cpp_class \<Rightarrow> cpp_class \<Rightarrow> bool" where
  "is_base_of b (Class n bs) = (b = Class n bs \<or> list_ex (is_base_of b) bs)"

text \<open>
  A native object lives at an address and has a dynamic class. A raw pointer
  \<^verbatim>\<open>Geography*\<close> and a \<^verbatim>\<open>std::unique_ptr<T>\<close> are both either null (\<open>None\<close>) or
  the object they point to; who owns the object is a matter of where the value is
  held, not of the pointer's shape.
\<close>

record native_object =
  address :: addr
  dyn_class :: cpp_class

type_synonym raw_ptr = "native_object option"
type_synonym unique_ptr = "native_object option"

subsection \<open>Host objects and handles\<close>

text \<open>
  What a host object can be, as far as the header can tell the cases apart: the
  \<^verbatim>\<open>None\<close> singleton, a number, a string, a type descriptor of the array library
  (by its type number), an object array (its slots are references to host objects),
  or an instance of a class bound from C++, which wraps a native object.
\<close>

datatype py_value =
    PyNone
  | PyInt int
  | PyStr string
  | PyDescr int
  | PyArray "addr list"
  | PyInstance native_object

record host_object =
  ob_refcnt :: nat
  ob_val :: py_value

text \<open>
  \<^verbatim>\<open>py::handle\<close>, \<^verbatim>\<open>py::object\<close>, \<^verbatim>\<open>py::dtype\<close> and \<^verbatim>\<open>PyObjectGeography\<close> all
  hold one field, the pointer \<^verbatim>\<open>m_ptr\<close> to a host object, which may be null.
\<close>

record py_handle =
  m_ptr :: "addr option"

type_synonym py_object = py_handle
type_synonym py_dtype = py_handle
type_synonym PyObjectGeography = py_handle

text \<open>
  The runtime: the host heap (an object's address is its index), the address of the
  \<^verbatim>\<open>None\<close> singleton, and the array library's table from type numbers to
  descriptor objects (what \<^verbatim>\<open>PyArray_DescrFromType\<close> consults; the array library's
  C interface is taken as loaded).
\<close>

record py_runtime =
  objects :: "host_object list"
  Py_None :: addr
  descr_table :: "int \<Rightarrow> addr option"

definition obj_at :: "py_runtime \<Rightarrow> addr \<Rightarrow> host_object option" where
  "obj_at rt a = (if a < length (objects rt) then Some (objects rt ! a) else None)"

text \<open>
  The object a handle refers to. A null handle refers to nothing; an owning handle
  keeps its object alive, so an address outside the heap is not a referent either.
\<close>

definition referent :: "py_handle \<Rightarrow> py_runtime \<Rightarrow> py_value option" where
  "referent h rt =
     (case m_ptr h of None \<Rightarrow> None | Some a \<Rightarrow> map_option ob_val (obj_at rt a))"

definition refcount :: "py_handle \<Rightarrow> py_runtime \<Rightarrow> nat option" where
  "refcount h rt =
     (case m_ptr h of None \<Rightarrow> None | Some a \<Rightarrow> map_option ob_refcnt (obj_at rt a))"

text \<open>\<^verbatim>\<open>handle::inc_ref\<close> (\<^verbatim>\<open>Py_XINCREF\<close>): nothing happens on a null pointer.\<close>

definition inc_ref :: "py_handle \<Rightarrow> py_runtime \<Rightarrow> py_runtime" where
  "inc_ref h rt =
     (case m_ptr h of
        None \<Rightarrow> rt
      | Some a \<Rightarrow>
          (case obj_at rt a of
             None \<Rightarrow> rt
           | Some ob \<Rightarrow>
               rt\<lparr>objects := (objects rt)[a := ob\<lparr>ob_refcnt := Suc (ob_refcnt ob)\<rparr>]\<rparr>))"

subsection \<open>C++ exceptions and how the host sees them\<close>

datatype cpp_exception =
    cast_error
  | type_error string
  | value_error string
  | runtime_error string

datatype py_exception_type = PyExc_TypeError | PyExc_ValueError | PyExc_RuntimeError

text \<open>
  The binding library turns a C++ exception that leaves a bound function into a host
  exception: \<^verbatim>\<open>py::type_error\<close> becomes \<^verbatim>\<open>TypeError\<close>, \<^verbatim>\<open>py::value_error\<close>
  becomes \<^verbatim>\<open>ValueError\<close>, \<^verbatim>\<open>py::cast_error\<close> and \<^verbatim>\<open>std::runtime_error\<close> become
  \<^verbatim>\<open>RuntimeError\<close>.
\<close>

fun translate_exception :: "cpp_exception \<Rightarrow> py_exception_type \<times> string" where
  "translate_exception cast_error = (PyExc_RuntimeError, [])"
| "translate_exception (type_error msg) = (PyExc_TypeError, msg)"
| "translate_exception (value_error msg) = (PyExc_ValueError, msg)"
| "translate_exception (runtime_error msg) = (PyExc_RuntimeError, msg)"

section \<open>The casts of pybind11 that the header calls\<close>

text \<open>
  \<^verbatim>\<open>cast<Geography*>()\<close> is a member of \<^verbatim>\<open>py::object\<close>: pybind11's, not the
  header's. It loads the pointer with conversion allowed: a null handle does not load; \<^verbatim>\<open>None\<close> loads as
  the null pointer; an instance of a bound class loads as the pointer to the object it
  wraps when its class is \<^verbatim>\<open>Geography\<close> or derives from it; nothing else loads. A
  load that fails throws \<^verbatim>\<open>py::cast_error\<close>. The call takes the handle by
  reference and touches no reference count.
\<close>

fun load_Geography_ptr :: "py_value option \<Rightarrow> cpp_exception + raw_ptr" where
  "load_Geography_ptr None = Inl cast_error"
| "load_Geography_ptr (Some PyNone) = Inr None"
| "load_Geography_ptr (Some (PyInstance ob)) =
     (if is_base_of Geography (dyn_class ob) then Inr (Some ob) else Inl cast_error)"
| "load_Geography_ptr (Some _) = Inl cast_error"

definition cast_Geography_ptr ::
  "py_handle \<Rightarrow> py_runtime \<Rightarrow> (cpp_exception + raw_ptr) \<times> py_runtime" where
  "cast_Geography_ptr h rt = (load_Geography_ptr (referent h rt), rt)"

text \<open>
  \<^verbatim>\<open>py::cast(std::move(geog_ptr))\<close> on a \<^verbatim>\<open>std::unique_ptr\<close>: a null pointer
  gives a new reference to \<^verbatim>\<open>None\<close>; otherwise the library allocates a host
  instance of the object's class, moves the pointer into it (the instance now owns
  the native object, which stays where it is) and returns the only reference to it.
\<close>

definition py_cast_unique_ptr :: "unique_ptr \<Rightarrow> py_runtime \<Rightarrow> py_object \<times> py_runtime" where
  "py_cast_unique_ptr p rt =
     (case p of
        None \<Rightarrow> (let h = \<lparr>m_ptr = Some (Py_None rt)\<rparr> in (h, inc_ref h rt))
      | Some ob \<Rightarrow>
          (\<lparr>m_ptr = Some (length (objects rt))\<rparr>,
           rt\<lparr>objects := objects rt @ [\<lparr>ob_refcnt = 1, ob_val = PyInstance ob\<rparr>]\<rparr>))"

section \<open>\<^verbatim>\<open>PyObjectGeography\<close>\<close>

text \<open>
  \<^verbatim>\<open>as_geog_ptr\<close>: the cast, with \<^verbatim>\<open>py::cast_error\<close> caught and
  \<^verbatim>\<open>py::type_error("not a Geography object")\<close> thrown in its place. Any other
  exception is not caught.
\<close>

definition as_geog_ptr ::
  "PyObjectGeography \<Rightarrow> py_runtime \<Rightarrow> (cpp_exception + raw_ptr) \<times> py_runtime" where
  "as_geog_ptr self rt =
     (case cast_Geography_ptr self rt of
        (Inr p, rt') \<Rightarrow> (Inr p, rt')
      | (Inl e, rt') \<Rightarrow>
          (if e = cast_error then (Inl (type_error ''not a Geography object''), rt')
           else (Inl e, rt')))"

text \<open>
  \<^verbatim>\<open>as_py_object\<close> exists only for a \<open>T\<close> with
  \<^verbatim>\<open>std::is_base_of<Geography, T>\<close>; for any other \<open>T\<close> there is no such function
  (\<open>None\<close>). It hands the pointer to the library's cast.
\<close>

definition as_py_object ::
  "cpp_class \<Rightarrow> unique_ptr \<Rightarrow> py_runtime \<Rightarrow> (py_object \<times> py_runtime) option" where
  "as_py_object T geog_ptr rt =
     (if is_base_of Geography T then Some (py_cast_unique_ptr geog_ptr rt) else None)"

text \<open>
  \<^verbatim>\<open>is_geog_ptr\<close>: the same cast, its result dropped; \<^verbatim>\<open>py::cast_error\<close> is
  caught and answered with false, anything else would leave the function.
\<close>

definition is_geog_ptr ::
  "PyObjectGeography \<Rightarrow> py_runtime \<Rightarrow> (cpp_exception + bool) \<times> py_runtime" where
  "is_geog_ptr self rt =
     (case cast_Geography_ptr self rt of
        (Inr p, rt') \<Rightarrow> (Inr True, rt')
      | (Inl e, rt') \<Rightarrow>
          (if e = cast_error then (Inr False, rt') else (Inl e, rt')))"

section \<open>\<^verbatim>\<open>vectorize_arg<PyObjectGeography>\<close>\<close>

text \<open>
  The trait is three compile-time members. C++ types are written as terms so that
  \<^verbatim>\<open>conditional_t\<close> and \<^verbatim>\<open>remove_cv_t\<close> can be evaluated as the compiler does.
  \<^verbatim>\<open>array_t<T, ExtraFlags>\<close> carries its flags; \<^verbatim>\<open>array::forcecast\<close> is the
  array library's force-cast flag, 16.
\<close>

datatype cpp_type =
    PyObjectGeography_t
  | const_t cpp_type
  | volatile_t cpp_type
  | array_t cpp_type int

fun remove_cv_t :: "cpp_type \<Rightarrow> cpp_type" where
  "remove_cv_t (const_t t) = remove_cv_t t"
| "remove_cv_t (volatile_t t) = remove_cv_t t"
| "remove_cv_t t = t"

definition conditional_t :: "bool \<Rightarrow> cpp_type \<Rightarrow> cpp_type \<Rightarrow> cpp_type" where
  "conditional_t b t f = (if b then t else f)"

definition forcecast :: int where "forcecast = 16"

record vectorize_arg =
  call_type :: cpp_type
  vectorize :: bool
  arg_type :: cpp_type

definition vectorize_arg_PyObjectGeography :: vectorize_arg where
  "vectorize_arg_PyObjectGeography =
     (let T = PyObjectGeography_t;
          call_type = T;
          vectorize = True
      in \<lparr>call_type = call_type,
          vectorize = vectorize,
          arg_type = conditional_t vectorize (array_t (remove_cv_t call_type) forcecast) T\<rparr>)"

section \<open>\<^verbatim>\<open>npy_format_descriptor<PyObjectGeography>\<close>\<close>

text \<open>
  The members \<^verbatim>\<open>name\<close> and \<^verbatim>\<open>value\<close> of the descriptor are \<open>descr_name\<close> and
  \<open>descr_value\<close> here; \<^verbatim>\<open>NPY_OBJECT_\<close> is the array library's type number of the
  object element kind, 17.
\<close>

definition NPY_OBJECT :: int where "NPY_OBJECT = 17"

definition descr_name :: string where "descr_name = ''object''"

definition descr_value :: int where "descr_value = NPY_OBJECT"

text \<open>
  \<^verbatim>\<open>PyArray_DescrFromType\<close> returns a new reference to the descriptor registered
  for a type number, or null when there is none.
\<close>

definition PyArray_DescrFromType :: "int \<Rightarrow> py_runtime \<Rightarrow> addr option \<times> py_runtime" where
  "PyArray_DescrFromType typenum rt =
     (case descr_table rt typenum of
        None \<Rightarrow> (None, rt)
      | Some d \<Rightarrow> (Some d, inc_ref \<lparr>m_ptr = Some d\<rparr> rt))"

text \<open>\<^verbatim>\<open>reinterpret_borrow\<close> makes a handle of the pointer and takes a reference.\<close>

definition reinterpret_borrow :: "addr \<Rightarrow> py_runtime \<Rightarrow> py_handle \<times> py_runtime" where
  "reinterpret_borrow ptr rt = (let h = \<lparr>m_ptr = Some ptr\<rparr> in (h, inc_ref h rt))"

text \<open>\<^verbatim>\<open>pybind11_fail\<close> throws \<^verbatim>\<open>std::runtime_error\<close> with the reason.\<close>

definition pybind11_fail :: "string \<Rightarrow> cpp_exception" where
  "pybind11_fail reason = runtime_error reason"

definition dtype :: "py_runtime \<Rightarrow> (cpp_exception + py_dtype) \<times> py_runtime" where
  "dtype rt =
     (case PyArray_DescrFromType descr_value rt of
        (Some ptr, rt') \<Rightarrow>
          (case reinterpret_borrow ptr rt' of (d, rt'') \<Rightarrow> (Inr d, rt''))
      | (None, rt') \<Rightarrow> (Inl (pybind11_fail ''Unsupported buffer format!''), rt'))"

section \<open>\<^verbatim>\<open>pybind11::cast\<close> for \<^verbatim>\<open>PyObjectGeography\<close>\<close>


section \<open>A small runtime to evaluate on\<close>

text \<open>
  A subclass of \<^verbatim>\<open>Geography\<close>, and a class bound from C++ that has nothing to do
  with it.
\<close>

definition Point :: cpp_class where
  "Point = Class ''Point'' [Geography]"

definition Projection :: cpp_class where
  "Projection = Class ''Projection'' []"

text \<open>
  Seven host objects: \<^verbatim>\<open>None\<close> at 0, the number 42 at 1, a string at 2, the
  descriptor of type number 17 at 3, a wrapped \<^verbatim>\<open>Point\<close> at 4, at 5 an object
  array whose slots refer to the point, the number and \<^verbatim>\<open>None\<close>, and at 6 a
  wrapped object of the unrelated class.
\<close>

definition example_rt :: py_runtime where
  "example_rt =
     \<lparr>objects =
        [\<lparr>ob_refcnt = 2, ob_val = PyNone\<rparr>,
         \<lparr>ob_refcnt = 2, ob_val = PyInt 42\<rparr>,
         \<lparr>ob_refcnt = 1, ob_val = PyStr ''POINT (1 2)''\<rparr>,
         \<lparr>ob_refcnt = 1, ob_val = PyDescr 17\<rparr>,
         \<lparr>ob_refcnt = 2, ob_val = PyInstance \<lparr>address = 4096, dyn_class = Point\<rparr>\<rparr>,
         \<lparr>ob_refcnt = 1, ob_val = PyArray [4, 1, 0]\<rparr>,
         \<lparr>ob_refcnt = 1, ob_val = PyInstance \<lparr>address = 12288, dyn_class = Projection\<rparr>\<rparr>],
      Py_None = 0,
      descr_table = (\<lambda>n. if n = 17 then Some 3 else None)\<rparr>"

text \<open>A runtime whose descriptor table knows no type number at all.\<close>

definition bare_rt :: py_runtime where
  "bare_rt =
     \<lparr>objects = [\<lparr>ob_refcnt = 1, ob_val = PyNone\<rparr>],
      Py_None = 0,
      descr_table = (\<lambda>n. None)\<rparr>"

section \<open>Facts about the runtime\<close>

lemmas example_defs = example_rt_def bare_rt_def Point_def Projection_def Geography_def
  referent_def refcount_def obj_at_def

lemma is_base_of_refl: "is_base_of c c"
  by (cases c) simp

lemma is_base_of_trans:
  "is_base_of a b \<Longrightarrow> is_base_of b c \<Longrightarrow> is_base_of a c"
proof (induction c)
  case (Class n bs)
  show ?case
  proof (cases "b = Class n bs")
    case True
    with Class.prems(1) show ?thesis by simp
  next
    case False
    with Class.prems(2) obtain d where d: "d \<in> set bs" "is_base_of b d"
      by (auto simp: list_ex_iff)
    with Class.IH Class.prems(1) have "is_base_of a d" by blast
    with d(1) show ?thesis by (auto simp: list_ex_iff)
  qed
qed

lemma inc_ref_objects_length: "length (objects (inc_ref h rt)) = length (objects rt)"
  by (simp add: inc_ref_def split: option.splits)


lemma inc_ref_descr_table: "descr_table (inc_ref h rt) = descr_table rt"
  by (simp add: inc_ref_def split: option.splits)

lemma inc_ref_Py_None: "Py_None (inc_ref h rt) = Py_None rt"
  by (simp add: inc_ref_def split: option.splits)


lemma cast_Geography_ptr_throws_only_cast_error:
  "fst (cast_Geography_ptr h rt) = Inl e \<Longrightarrow> e = cast_error"
  by (cases "(referent h rt)" rule: load_Geography_ptr.cases)
     (auto simp: cast_Geography_ptr_def split: if_splits)

lemma as_geog_ptr_runtime: "snd (as_geog_ptr self rt) = rt"
  by (simp add: as_geog_ptr_def cast_Geography_ptr_def split: sum.splits)

lemma is_geog_ptr_runtime: "snd (is_geog_ptr self rt) = rt"
  by (simp add: is_geog_ptr_def cast_Geography_ptr_def split: sum.splits)

lemma is_geog_ptr_no_throw: "\<exists>b. fst (is_geog_ptr self rt) = Inr b"
  using cast_Geography_ptr_throws_only_cast_error [of self rt]
  by (auto simp: is_geog_ptr_def split: prod.splits sum.splits)

lemma as_geog_ptr_fails_iff:
  "(\<exists>e. fst (as_geog_ptr self rt) = Inl e) \<longleftrightarrow> fst (is_geog_ptr self rt) = Inr False"
  using cast_Geography_ptr_throws_only_cast_error [of self rt]
  by (auto simp: as_geog_ptr_def is_geog_ptr_def split: prod.splits sum.splits)


text \<open>Every failure of \<^verbatim>\<open>as_geog_ptr\<close> is the one exception it throws itself.\<close>

lemma as_geog_ptr_error_message:
  "fst (as_geog_ptr self rt) = Inl e \<Longrightarrow> e = type_error ''not a Geography object''"
  using cast_Geography_ptr_throws_only_cast_error [of self rt]
  by (auto simp: as_geog_ptr_def split: prod.splits sum.splits if_splits)

text \<open>
  What the two functions do reject: every handle whose referent is neither
  \<^verbatim>\<open>None\<close> nor an instance of \<^verbatim>\<open>Geography\<close> or of a class derived from it,
  the null handle included.
\<close>

lemma load_Geography_ptr_rejects:
  assumes "v \<noteq> Some PyNone"
    and "\<And>g. v = Some (PyInstance g) \<Longrightarrow> \<not> is_base_of Geography (dyn_class g)"
  shows "load_Geography_ptr v = Inl cast_error"
proof (cases v)
  case None
  then show ?thesis by simp
next
  case (Some x)
  with assms show ?thesis by (cases x) auto
qed

lemma as_geog_ptr_rejects:
  assumes "referent self rt \<noteq> Some PyNone"
    and "\<And>g. referent self rt = Some (PyInstance g) \<Longrightarrow> \<not> is_base_of Geography (dyn_class g)"
  shows "as_geog_ptr self rt = (Inl (type_error ''not a Geography object''), rt)"
    and "is_geog_ptr self rt = (Inr False, rt)"
  using load_Geography_ptr_rejects [OF assms]
  by (simp_all add: as_geog_ptr_def is_geog_ptr_def cast_Geography_ptr_def)

text \<open>
  In the example: the number, the string, the descriptor, the array, the unrelated
  instance, the null handle and a handle to no object are all rejected.
\<close>

lemma as_geog_ptr_rejects_examples:
  "list_all (\<lambda>h. as_geog_ptr h example_rt
                    = (Inl (type_error ''not a Geography object''), example_rt)
                  \<and> is_geog_ptr h example_rt = (Inr False, example_rt))
     [\<lparr>m_ptr = Some 1\<rparr>, \<lparr>m_ptr = Some 2\<rparr>, \<lparr>m_ptr = Some 3\<rparr>, \<lparr>m_ptr = Some 5\<rparr>,
      \<lparr>m_ptr = Some 6\<rparr>, \<lparr>m_ptr = None\<rparr>, \<lparr>m_ptr = Some 7\<rparr>]"
  by (simp add: as_geog_ptr_def is_geog_ptr_def cast_Geography_ptr_def example_defs)

text \<open>The descriptor lookup reads the table and nothing else, and leaves it as it was.\<close>

lemma dtype_result:
  "fst (dtype rt) =
     (case descr_table rt NPY_OBJECT of
        None \<Rightarrow> Inl (runtime_error ''Unsupported buffer format!'')
      | Some d \<Rightarrow> Inr \<lparr>m_ptr = Some d\<rparr>)"
  by (simp add: dtype_def PyArray_DescrFromType_def reinterpret_borrow_def pybind11_fail_def
      descr_value_def Let_def split: option.splits)

lemma dtype_descr_table: "descr_table (snd (dtype rt)) = descr_table rt"
  by (simp add: dtype_def PyArray_DescrFromType_def reinterpret_borrow_def
      inc_ref_descr_table Let_def split: option.splits)

lemma dtype_same_table:
  "descr_table rt2 = descr_table rt1 \<Longrightarrow> fst (dtype rt2) = fst (dtype rt1)"
  by (simp add: dtype_result)

section \<open>The claims\<close>

subsection \<open>Host to native\<close>

text \<open>
  C1. For every handle whose referent is a native geometry object (an instance of
  \<^verbatim>\<open>Geography\<close> or of any class derived from it), \<^verbatim>\<open>as_geog_ptr()\<close> returns the
  pointer to that very object, with the dynamic class the object has, and
  \<^verbatim>\<open>is_geog_ptr()\<close> returns true. The pointer does not own: the runtime after the
  call is the runtime before it, so the host instance still holds the object and no
  reference count has moved.
\<close>

theorem as_geog_ptr_of_geography:
  assumes "referent self rt = Some (PyInstance g)"
    and "is_base_of Geography (dyn_class g)"
  shows "as_geog_ptr self rt = (Inr (Some g), rt) \<and> is_geog_ptr self rt = (Inr True, rt)"
  using assms by (simp add: as_geog_ptr_def is_geog_ptr_def cast_Geography_ptr_def)

theorem as_geog_ptr_of_geography_witness:
  "referent \<lparr>m_ptr = Some 4\<rparr> example_rt
     = Some (PyInstance \<lparr>address = 4096, dyn_class = Point\<rparr>)
   \<and> is_base_of Geography Point
   \<and> as_geog_ptr \<lparr>m_ptr = Some 4\<rparr> example_rt
       = (Inr (Some \<lparr>address = 4096, dyn_class = Point\<rparr>), example_rt)
   \<and> is_geog_ptr \<lparr>m_ptr = Some 4\<rparr> example_rt = (Inr True, example_rt)"
  using as_geog_ptr_of_geography
    [of "\<lparr>m_ptr = Some 4\<rparr>" example_rt "\<lparr>address = 4096, dyn_class = Point\<rparr>"]
  by (simp add: example_defs)

text \<open>
  C2. The claim is that for every handle whose referent is not a native geometry
  object \<^verbatim>\<open>as_geog_ptr()\<close> fails and \<^verbatim>\<open>is_geog_ptr()\<close> returns false. The
  header's own comment on \<^verbatim>\<open>is_geog_ptr\<close> says the same (``just check whether the
  object is a Geography''). The code does so for numbers, strings and unrelated
  instances (\<open>as_geog_ptr_rejects\<close>), but not for \<^verbatim>\<open>None\<close>, the value an object
  array is filled with by default: slot 0 of the example refers to \<^verbatim>\<open>None\<close>, and
  there \<^verbatim>\<open>as_geog_ptr()\<close> returns the null pointer without raising and
  \<^verbatim>\<open>is_geog_ptr()\<close> returns true.
\<close>

theorem as_geog_ptr_None_not_rejected:
  "referent \<lparr>m_ptr = Some 0\<rparr> example_rt = Some PyNone
   \<and> fst (as_geog_ptr \<lparr>m_ptr = Some 0\<rparr> example_rt) = Inr None
   \<and> fst (is_geog_ptr \<lparr>m_ptr = Some 0\<rparr> example_rt) = Inr True"
  by (simp add: example_defs as_geog_ptr_def is_geog_ptr_def cast_Geography_ptr_def)

text \<open>
  C3. The claim is that a failed downcast reaches the host as a value-error-style
  exception with the message ``not a Geography object''; the comment above
  \<^verbatim>\<open>as_geog_ptr\<close> also says \<^verbatim>\<open>ValueError\<close>. The message is right
  (\<open>as_geog_ptr_error_message\<close>), the kind is not: the code throws
  \<^verbatim>\<open>py::type_error\<close>, which the host sees as \<^verbatim>\<open>TypeError\<close>. Evaluated on the
  handle to the number 42:
\<close>

theorem as_geog_ptr_raises_TypeError:
  "referent \<lparr>m_ptr = Some 1\<rparr> example_rt = Some (PyInt 42)
   \<and> fst (as_geog_ptr \<lparr>m_ptr = Some 1\<rparr> example_rt)
       = Inl (type_error ''not a Geography object'')
   \<and> map_sum translate_exception id (fst (as_geog_ptr \<lparr>m_ptr = Some 1\<rparr> example_rt))
       = Inl (PyExc_TypeError, ''not a Geography object'')
   \<and> map_sum translate_exception id (fst (as_geog_ptr \<lparr>m_ptr = Some 1\<rparr> example_rt))
       \<noteq> Inl (PyExc_ValueError, ''not a Geography object'')"
  by (simp add: example_defs as_geog_ptr_def cast_Geography_ptr_def)

text \<open>
  C5. A call of \<^verbatim>\<open>as_geog_ptr()\<close> that fails changes nothing: the runtime after
  the failure is the runtime before it, so the handle's referent, its reference
  count, every array that refers to it, and what the next \<^verbatim>\<open>as_geog_ptr()\<close> or
  \<^verbatim>\<open>is_geog_ptr()\<close> on the same handle answers are as they were. (The handle
  itself is the receiver of a \<^verbatim>\<open>const\<close> member function.)
\<close>

theorem as_geog_ptr_failure_is_atomic:
  assumes "as_geog_ptr self rt = (Inl e, rt')"
  shows "rt' = rt
    \<and> referent self rt' = referent self rt
    \<and> refcount self rt' = refcount self rt
    \<and> as_geog_ptr self rt' = (Inl e, rt')
    \<and> is_geog_ptr self rt' = is_geog_ptr self rt"
proof -
  from assms as_geog_ptr_runtime [of self rt] have "rt' = rt" by simp
  with assms show ?thesis by simp
qed

theorem as_geog_ptr_failure_is_atomic_witness:
  "as_geog_ptr \<lparr>m_ptr = Some 1\<rparr> example_rt
     = (Inl (type_error ''not a Geography object''), example_rt)
   \<and> obj_at example_rt 5 = Some \<lparr>ob_refcnt = 1, ob_val = PyArray [4, 1, 0]\<rparr>
   \<and> refcount \<lparr>m_ptr = Some 1\<rparr> example_rt = Some 2
   \<and> is_geog_ptr \<lparr>m_ptr = Some 1\<rparr> example_rt = (Inr False, example_rt)"
proof -
  have fails: "as_geog_ptr \<lparr>m_ptr = Some 1\<rparr> example_rt
      = (Inl (type_error ''not a Geography object''), example_rt)"
    by (simp add: example_defs as_geog_ptr_def cast_Geography_ptr_def)
  from as_geog_ptr_failure_is_atomic [OF fails] fails show ?thesis
    by (simp add: example_defs is_geog_ptr_def cast_Geography_ptr_def)
qed

text \<open>
  C9. For a handle that refers to the host's \<^verbatim>\<open>None\<close> the downcast succeeds:
  \<^verbatim>\<open>as_geog_ptr()\<close> returns the null pointer and raises nothing, and
  \<^verbatim>\<open>is_geog_ptr()\<close> returns true, although \<^verbatim>\<open>None\<close> is no geometry object.
\<close>

theorem as_geog_ptr_of_None:
  assumes "referent self rt = Some PyNone"
  shows "as_geog_ptr self rt = (Inr None, rt) \<and> is_geog_ptr self rt = (Inr True, rt)"
  using assms by (simp add: as_geog_ptr_def is_geog_ptr_def cast_Geography_ptr_def)

theorem as_geog_ptr_of_None_witness:
  "referent \<lparr>m_ptr = Some 0\<rparr> bare_rt = Some PyNone
   \<and> as_geog_ptr \<lparr>m_ptr = Some 0\<rparr> bare_rt = (Inr None, bare_rt)
   \<and> is_geog_ptr \<lparr>m_ptr = Some 0\<rparr> bare_rt = (Inr True, bare_rt)"
  using as_geog_ptr_of_None [of "\<lparr>m_ptr = Some 0\<rparr>" bare_rt]
  by (simp add: example_defs)

subsection \<open>Native to host and back\<close>

text \<open>
  C4. Round trip. Let \<open>g\<close> be a native object held by a
  \<^verbatim>\<open>std::unique_ptr<T>\<close>, where \<open>T\<close> is \<^verbatim>\<open>Geography\<close> or derives from it (so
  \<open>g\<close>'s dynamic class is \<open>T\<close> or derives from \<open>T\<close>). Then \<^verbatim>\<open>as_py_object\<close>
  returns a handle to a new host object, the only reference to it, for which
  \<^verbatim>\<open>is_geog_ptr()\<close> is true and \<^verbatim>\<open>as_geog_ptr()\<close> returns the pointer to \<open>g\<close>
  itself: the same address and class, no copy. The objects that were there before
  are untouched.
\<close>

theorem as_py_object_round_trip:
  assumes "is_base_of Geography T" and "is_base_of T (dyn_class g)"
  shows "\<exists>h rt'. as_py_object T (Some g) rt = Some (h, rt')
           \<and> is_geog_ptr h rt' = (Inr True, rt')
           \<and> as_geog_ptr h rt' = (Inr (Some g), rt')
           \<and> referent h rt' = Some (PyInstance g)
           \<and> refcount h rt' = Some 1
           \<and> objects rt' = objects rt @ [\<lparr>ob_refcnt = 1, ob_val = PyInstance g\<rparr>]"
proof -
  from assms have geog: "is_base_of Geography (dyn_class g)"
    by (rule is_base_of_trans)
  define h :: py_object where "h = \<lparr>m_ptr = Some (length (objects rt))\<rparr>"
  define rt' where
    "rt' = rt\<lparr>objects := objects rt @ [\<lparr>ob_refcnt = 1, ob_val = PyInstance g\<rparr>]\<rparr>"
  have wrap: "as_py_object T (Some g) rt = Some (h, rt')"
    using assms(1) by (simp add: as_py_object_def py_cast_unique_ptr_def h_def rt'_def)
  have ref: "referent h rt' = Some (PyInstance g)"
    by (simp add: referent_def obj_at_def h_def rt'_def)
  have cnt: "refcount h rt' = Some 1"
    by (simp add: refcount_def obj_at_def h_def rt'_def)
  have again: "as_geog_ptr h rt' = (Inr (Some g), rt')" "is_geog_ptr h rt' = (Inr True, rt')"
    using ref geog by (simp_all add: as_geog_ptr_def is_geog_ptr_def cast_Geography_ptr_def)
  have "objects rt' = objects rt @ [\<lparr>ob_refcnt = 1, ob_val = PyInstance g\<rparr>]"
    by (simp add: rt'_def)
  with wrap ref cnt again show ?thesis by blast
qed

theorem as_py_object_round_trip_witness:
  "is_base_of Geography Point \<and> is_base_of Point Point
   \<and> (\<exists>h rt'.
         as_py_object Point (Some \<lparr>address = 8192, dyn_class = Point\<rparr>) example_rt
           = Some (h, rt')
         \<and> is_geog_ptr h rt' = (Inr True, rt')
         \<and> as_geog_ptr h rt' = (Inr (Some \<lparr>address = 8192, dyn_class = Point\<rparr>), rt')
         \<and> referent h rt' = Some (PyInstance \<lparr>address = 8192, dyn_class = Point\<rparr>)
         \<and> refcount h rt' = Some 1
         \<and> objects rt' = objects example_rt
             @ [\<lparr>ob_refcnt = 1, ob_val = PyInstance \<lparr>address = 8192, dyn_class = Point\<rparr>\<rparr>])"
  using as_py_object_round_trip [of Point "\<lparr>address = 8192, dyn_class = Point\<rparr>" example_rt]
  by (simp add: Point_def Geography_def)

subsection \<open>The descriptor\<close>

text \<open>
  C6. The descriptor lookup \<^verbatim>\<open>dtype()\<close> fails with ``Unsupported buffer format!''
  exactly when the descriptor table has no entry for the object element kind; it
  fails in no other way; and when the table has the entry, the lookup returns a
  handle to that registered descriptor.
\<close>

theorem dtype_fails_iff_no_object_descriptor:
  "(fst (dtype rt) = Inl (runtime_error ''Unsupported buffer format!'')
      \<longleftrightarrow> descr_table rt NPY_OBJECT = None)
   \<and> (\<forall>e. fst (dtype rt) = Inl e \<longrightarrow> e = runtime_error ''Unsupported buffer format!'')
   \<and> (\<forall>d. descr_table rt NPY_OBJECT = Some d \<longrightarrow> fst (dtype rt) = Inr \<lparr>m_ptr = Some d\<rparr>)"
proof (cases "descr_table rt NPY_OBJECT")
  case None
  then have "fst (dtype rt) = Inl (runtime_error ''Unsupported buffer format!'')"
    by (simp add: dtype_result)
  with None show ?thesis by simp
next
  case (Some d)
  then have "fst (dtype rt) = Inr \<lparr>m_ptr = Some d\<rparr>"
    by (simp add: dtype_result)
  with Some show ?thesis by simp
qed

theorem dtype_fails_iff_no_object_descriptor_witness:
  "descr_table example_rt NPY_OBJECT = Some 3
   \<and> fst (dtype example_rt) = Inr \<lparr>m_ptr = Some 3\<rparr>
   \<and> descr_table bare_rt NPY_OBJECT = None
   \<and> fst (dtype bare_rt) = Inl (runtime_error ''Unsupported buffer format!'')"
proof -
  have present: "descr_table example_rt NPY_OBJECT = Some 3"
    by (simp add: example_rt_def NPY_OBJECT_def)
  have absent: "descr_table bare_rt NPY_OBJECT = None"
    by (simp add: bare_rt_def)
  from dtype_fails_iff_no_object_descriptor [of example_rt] present
  have found: "fst (dtype example_rt) = Inr \<lparr>m_ptr = Some 3\<rparr>"
    by blast
  from dtype_fails_iff_no_object_descriptor [of bare_rt] absent
  have failed: "fst (dtype bare_rt) = Inl (runtime_error ''Unsupported buffer format!'')"
    by blast
  from present absent found failed show ?thesis by blast
qed

text \<open>
  C8. Two descriptor lookups, the second in the runtime the first one left, always
  return, and with the same outcome: both give a handle to one and the same
  descriptor, or both fail with ``Unsupported buffer format!''. Between the two
  only the descriptor's reference count has moved; whatever else happens in between
  changes nothing either, as long as the table stays as it is
  (\<open>dtype_same_table\<close>).
\<close>

theorem dtype_twice:
  "(\<exists>d. fst (dtype rt) = Inr d \<and> fst (dtype (snd (dtype rt))) = Inr d)
   \<or> (fst (dtype rt) = Inl (runtime_error ''Unsupported buffer format!'')
      \<and> fst (dtype (snd (dtype rt))) = Inl (runtime_error ''Unsupported buffer format!''))"
proof -
  have same: "fst (dtype (snd (dtype rt))) = fst (dtype rt)"
    by (simp add: dtype_result dtype_descr_table)
  show ?thesis
  proof (cases "descr_table rt NPY_OBJECT")
    case None
    then have "fst (dtype rt) = Inl (runtime_error ''Unsupported buffer format!'')"
      by (simp add: dtype_result)
    with same show ?thesis by simp
  next
    case (Some d)
    then have "fst (dtype rt) = Inr \<lparr>m_ptr = Some d\<rparr>"
      by (simp add: dtype_result)
    with same show ?thesis by simp
  qed
qed

theorem dtype_twice_witness:
  "fst (dtype example_rt) = Inr \<lparr>m_ptr = Some 3\<rparr>
   \<and> fst (dtype (snd (dtype example_rt))) = Inr \<lparr>m_ptr = Some 3\<rparr>
   \<and> refcount \<lparr>m_ptr = Some 3\<rparr> (snd (dtype example_rt)) = Some 3
   \<and> fst (dtype bare_rt) = Inl (runtime_error ''Unsupported buffer format!'')
   \<and> fst (dtype (snd (dtype bare_rt))) = Inl (runtime_error ''Unsupported buffer format!'')"
  using dtype_twice [of example_rt] dtype_twice [of bare_rt]
  by (simp add: dtype_def PyArray_DescrFromType_def reinterpret_borrow_def pybind11_fail_def
      descr_value_def NPY_OBJECT_def inc_ref_def Let_def example_defs)

subsection \<open>The trait and the pass-through cast\<close>

text \<open>
  C7. The vectorization trait of the handle type: the wrapped function is called
  with one handle (\<^verbatim>\<open>call_type\<close> is the handle type itself, not an array type),
  the argument is vectorized, and the type accepted for it is an array of handles
  that carries the force-cast flag.
\<close>

theorem vectorize_arg_PyObjectGeography_members:
  "call_type vectorize_arg_PyObjectGeography = PyObjectGeography_t
   \<and> vectorize vectorize_arg_PyObjectGeography
   \<and> arg_type vectorize_arg_PyObjectGeography = array_t PyObjectGeography_t forcecast"
  by (simp add: vectorize_arg_PyObjectGeography_def conditional_t_def)




end
